theory Spec2Isabelle
  imports Complex_Main
begin

section \<open>The movie queue of flexget/plugins/filter/movie_queue.py\<close>

text \<open>
  The embedding follows the Python source function by function. The database session is
  passed explicitly: the \<open>movie_queue\<close> table is the list of its rows in insertion order, a
  query is a \<open>filter\<close> over that list, and every operation returns its result (or the
  exception it raises) together with the table it leaves behind.
\<close>

subsection \<open>Rows, exceptions and Python truth values\<close>

type_synonym datetime = nat

text \<open>
  \<open>QueuedMovie\<close>: the columns are those that \<open>to_dict\<close> reads. \<open>movie_id\<close> is the column
  \<open>id\<close> (primary key); a nullable column is an \<open>option\<close>.
\<close>

record QueuedMovie =
  movie_id :: nat
  title :: "string option"
  imdb_id :: "string option"
  tmdb_id :: "int option"
  quality :: string
  added :: datetime
  downloaded :: "datetime option"
  entry_title :: "string option"
  entry_url :: "string option"
  entry_original_url :: "string option"

type_synonym session = "QueuedMovie list"

text \<open>
  The messages that \<open>QueueError\<close> is raised with, one constructor per message; the second
  argument of \<open>QueueError\<close> is its \<open>errno\<close>.
\<close>

datatype queue_error =
    AlreadyDownloaded
  | AlreadyQueued
  | NotFound
  | MatchesMultiple
  | NotDownloaded
  | LookupKeyError

datatype error =
    QueueError queue_error nat
  | NoResultFound
  | MultipleResultsFound
  | AttributeError
  | ZeroDivisionError
  | OverflowError
  | IndexError

text \<open>Python's truth value of an optional string and of an optional integer.\<close>

definition truthy_str :: "string option \<Rightarrow> bool" where
  "truthy_str v = (case v of None \<Rightarrow> False | Some x \<Rightarrow> x \<noteq> [])"

definition truthy_int :: "int option \<Rightarrow> bool" where
  "truthy_int v = (case v of None \<Rightarrow> False | Some n \<Rightarrow> n \<noteq> 0)"

text \<open>\<open>a or b\<close> on optional strings.\<close>

definition py_or :: "string option \<Rightarrow> string option \<Rightarrow> string option" where
  "py_or a b = (if truthy_str a then a else b)"

subsection \<open>Queries\<close>

text \<open>
  \<open>Query.first()\<close> gives the first row of the result or \<open>None\<close>; \<open>Query.one()\<close> raises
  \<open>NoResultFound\<close> on an empty result and \<open>MultipleResultsFound\<close> on more than one row.
  The queries of the source carry no \<open>ORDER BY\<close>; rows come in table order.
\<close>

definition first_row :: "'a list \<Rightarrow> 'a option" where
  "first_row rows = (case rows of [] \<Rightarrow> None | r # _ \<Rightarrow> Some r)"

definition one_row :: "'a list \<Rightarrow> error + 'a" where
  "one_row rows =
     (case rows of
        [] \<Rightarrow> Inl NoResultFound
      | [r] \<Rightarrow> Inr r
      | _ # _ # _ \<Rightarrow> Inl MultipleResultsFound)"

text \<open>
  \<open>session.delete(item)\<close> and an attribute assignment on a loaded row act on the row with
  the item's primary key; \<open>session.add\<close> appends a row whose id the database assigns
  (one past the largest id in the table).
\<close>

definition session_delete :: "QueuedMovie \<Rightarrow> session \<Rightarrow> session" where
  "session_delete item s = filter (\<lambda>r. movie_id r \<noteq> movie_id item) s"

definition session_update :: "QueuedMovie \<Rightarrow> session \<Rightarrow> session" where
  "session_update item s = map (\<lambda>r. if movie_id r = movie_id item then item else r) s"

definition fresh_id :: "session \<Rightarrow> nat" where
  "fresh_id s = Suc (fold max (map movie_id s) 0)"

subsection \<open>parse_what\<close>

text \<open>
  The collaborators that \<open>parse_what\<close> calls are not part of the file and are parameters:
  \<open>extract_id\<close> (flexget.utils.imdb) on a string; \<open>tmdb_of_text\<close>, the integer that the
  \<open>Integer\<close> column \<open>tmdb_id\<close> holds for the text after \<open>tmdb_id=\<close>; and \<open>lookup\<close>, the
  effect of the imdb and tmdb lookup plugins on the search entry, given as what the entry
  then answers for \<open>movie_name\<close> (\<open>None\<close>: the key is missing, a \<open>KeyError\<close>), \<open>imdb_id\<close>
  and \<open>tmdb_id\<close>.
\<close>

record search_entry =
  se_title :: string
  se_imdb_id :: "string option"
  se_tmdb_id :: "int option"

record collaborators =
  extract_id :: "string \<Rightarrow> string option"
  tmdb_of_text :: "string \<Rightarrow> int"
  lookup :: "search_entry \<Rightarrow> string option \<times> string option \<times> int option"

type_synonym identity = "string option \<times> string option \<times> int option"

text \<open>
  \<open>what\<close> is \<open>None\<close> when the caller passes \<open>None\<close>: \<open>extract_id\<close> answers \<open>None\<close> for
  anything that is not a string, and \<open>what.startswith\<close> then raises \<open>AttributeError\<close>
  (the exception that \<open>MovieQueueAddAPI.post\<close> catches).
\<close>

definition parse_what :: "collaborators \<Rightarrow> string option \<Rightarrow> bool \<Rightarrow> error + identity" where
  "parse_what C what do_lookup =
     (case what of
        None \<Rightarrow> Inl AttributeError
      | Some w \<Rightarrow>
          (let r_imdb = extract_id C w;
               r_tmdb = (if \<not> truthy_str r_imdb \<and> take 8 w = ''tmdb_id=''
                         then Some (drop 8 w) else None);
               r_title = (if \<not> truthy_str r_imdb \<and> take 8 w \<noteq> ''tmdb_id=''
                          then Some w else None)
           in if \<not> do_lookup
              then Inr (r_title, r_imdb, map_option (tmdb_of_text C) r_tmdb)
              else
                (let entry = \<lparr> se_title = (case r_title of None \<Rightarrow> [] | Some t \<Rightarrow> t),
                                se_imdb_id = (if truthy_str r_imdb then r_imdb else None),
                                se_tmdb_id = (if truthy_str r_tmdb
                                              then map_option (tmdb_of_text C) r_tmdb
                                              else None) \<rparr>
                 in case lookup C entry of
                      (None, _, _) \<Rightarrow> Inl (QueueError LookupKeyError 0)
                    | (Some name, i, t) \<Rightarrow> Inr (Some name, i, t))))"

subsection \<open>queue_add, queue_del, queue_forget, queue_edit, queue_get\<close>

text \<open>
  The first half of \<open>queue_add\<close>: the identity the dedup query and the insert work with.
  An incomplete identity is sent to \<open>parse_what\<close> as \<open>imdb_id or title\<close>.
\<close>

definition queue_add_identity ::
  "collaborators \<Rightarrow> string option \<Rightarrow> string option \<Rightarrow> int option \<Rightarrow> error + identity" where
  "queue_add_identity C ttl imdb tmdb =
     (if \<not> truthy_str ttl \<or> \<not> (truthy_str imdb \<or> truthy_int tmdb)
      then parse_what C (py_or imdb ttl) True
      else Inr (ttl, imdb, tmdb))"

text \<open>The filter of the dedup query of \<open>queue_add\<close>.\<close>

definition already_queued :: "string option \<Rightarrow> int option \<Rightarrow> QueuedMovie \<Rightarrow> bool" where
  "already_queued imdb tmdb r =
     ((imdb_id r \<noteq> None \<and> imdb_id r = imdb) \<or> (tmdb_id r \<noteq> None \<and> tmdb_id r = tmdb))"

text \<open>
  \<open>qual\<close> is the text of the quality requirement (\<open>None\<close>: no requirement given, the
  requirement \<open>any\<close> is used); \<open>now\<close> is the clock reading the new row is stamped with.
\<close>

definition queue_add ::
  "collaborators \<Rightarrow> datetime \<Rightarrow> string option \<Rightarrow> string option \<Rightarrow> int option \<Rightarrow>
     string option \<Rightarrow> session \<Rightarrow> (error + (identity \<times> string)) \<times> session" where
  "queue_add C now ttl imdb tmdb qual s =
     (let q = (case qual of None \<Rightarrow> ''any'' | Some x \<Rightarrow> x) in
      case queue_add_identity C ttl imdb tmdb of
        Inl e \<Rightarrow> (Inl e, s)
      | Inr (ttl', imdb', tmdb') \<Rightarrow>
          (case first_row (filter (already_queued imdb' tmdb') s) of
             None \<Rightarrow>
               (Inr ((ttl', imdb', tmdb'), q),
                s @ [\<lparr> movie_id = fresh_id s, title = ttl', imdb_id = imdb', tmdb_id = tmdb',
                        quality = q, added = now, downloaded = None, entry_title = None,
                        entry_url = None, entry_original_url = None \<rparr>])
           | Some item \<Rightarrow>
               (if downloaded item \<noteq> None
                then (Inl (QueueError AlreadyDownloaded 1), s)
                else (Inl (QueueError AlreadyQueued 1), s))))"

definition queue_del ::
  "string option \<Rightarrow> string option \<Rightarrow> int option \<Rightarrow> session \<Rightarrow>
     (error + string option) \<times> session" where
  "queue_del ttl imdb tmdb s =
     (let query =
            (if truthy_str imdb then filter (\<lambda>r. imdb_id r = imdb) s
             else if truthy_int tmdb then filter (\<lambda>r. tmdb_id r = tmdb) s
             else if truthy_str ttl then filter (\<lambda>r. title r = ttl) s
             else s)
      in case one_row query of
           Inr item \<Rightarrow> (Inr (title item), session_delete item s)
         | Inl NoResultFound \<Rightarrow> (Inl (QueueError NotFound 0), s)
         | Inl MultipleResultsFound \<Rightarrow> (Inl (QueueError MatchesMultiple 0), s)
         | Inl e \<Rightarrow> (Inl e, s))"

definition queue_forget ::
  "string option \<Rightarrow> string option \<Rightarrow> int option \<Rightarrow> session \<Rightarrow>
     (error + string option) \<times> session" where
  "queue_forget ttl imdb tmdb s =
     (let query =
            (if truthy_str imdb then filter (\<lambda>r. imdb_id r = imdb) s
             else if truthy_int tmdb then filter (\<lambda>r. tmdb_id r = tmdb) s
             else if truthy_str ttl then filter (\<lambda>r. title r = ttl) s
             else s)
      in case one_row query of
           Inr item \<Rightarrow>
             (if downloaded item = None
              then (Inl (QueueError NotDownloaded 0), s)
              else (Inr (title item), session_update (item\<lparr>downloaded := None\<rparr>) s))
         | Inl NoResultFound \<Rightarrow> (Inl (QueueError NotFound 0), s)
         | Inl e \<Rightarrow> (Inl e, s))"

definition queue_edit ::
  "string \<Rightarrow> string option \<Rightarrow> int option \<Rightarrow> session \<Rightarrow>
     (error + string option) \<times> session" where
  "queue_edit qual imdb tmdb s =
     (case one_row (filter (\<lambda>r. imdb_id r = imdb) s) of
        Inr item \<Rightarrow> (Inr (title item), session_update (item\<lparr>quality := qual\<rparr>) s)
      | Inl NoResultFound \<Rightarrow> (Inl (QueueError NotFound 0), s)
      | Inl e \<Rightarrow> (Inl e, s))"

definition queue_get :: "bool \<Rightarrow> session \<Rightarrow> QueuedMovie list" where
  "queue_get only_downloaded s =
     (if \<not> only_downloaded then filter (\<lambda>r. downloaded r = None) s
      else filter (\<lambda>r. downloaded r \<noteq> None) s)"

subsection \<open>MovieQueue.matches\<close>

text \<open>
  Modelled from the spec: the \<open>Entry\<close> class (flexget.entry) is not part of the file. A
  field of a candidate is either populated (with a value or with \<open>None\<close>) or lazy: then
  \<open>entry.get(key, eval_lazy=False)\<close> answers \<open>None\<close> and \<open>entry.get(key, eval_lazy=True)\<close>
  runs the lookup, whose answer the constructor carries (spec 4.3, the two phases of
  identity extraction).
\<close>

datatype 'a field = Populated "'a option" | Lazy "'a option"

fun entry_get :: "'a field \<Rightarrow> bool \<Rightarrow> 'a option" where
  "entry_get (Populated v) eval_lazy = v"
| "entry_get (Lazy v) eval_lazy = (if eval_lazy then v else None)"

record 'q candidate =
  c_imdb_id :: "string field"
  c_tmdb_id :: "int field"
  c_quality :: "'q option"

text \<open>The plugin configuration: an action name, or a dictionary with \<open>action\<close> and \<open>quality\<close>.\<close>

datatype config = ConfigStr string | ConfigDict string "string option"

definition truthy_config :: "config option \<Rightarrow> bool" where
  "truthy_config c =
     (case c of None \<Rightarrow> False | Some (ConfigStr a) \<Rightarrow> a \<noteq> [] | Some (ConfigDict a q) \<Rightarrow> True)"

definition config_action :: "config option \<Rightarrow> string option" where
  "config_action c =
     (case c of None \<Rightarrow> None | Some (ConfigStr a) \<Rightarrow> Some a | Some (ConfigDict a q) \<Rightarrow> Some a)"

text \<open>The entries of the list \<open>conditions\<close>, and the SQL comparison each one stands for.\<close>

datatype condition = ImdbIs string | TmdbIs int

fun condition_holds :: "QueuedMovie \<Rightarrow> condition \<Rightarrow> bool" where
  "condition_holds r (ImdbIs v) = (imdb_id r = Some v)"
| "condition_holds r (TmdbIs n) = (tmdb_id r = Some n)"

text \<open>One round of the loop \<open>for lazy in [False, True]\<close>, started with no condition.\<close>

definition gather_conditions :: "'q candidate \<Rightarrow> bool \<Rightarrow> condition list" where
  "gather_conditions e lazy =
     (let c1 = (case entry_get (c_imdb_id e) lazy of
                  None \<Rightarrow> []
                | Some v \<Rightarrow> if v \<noteq> [] then [ImdbIs v] else []);
          c2 = (case entry_get (c_tmdb_id e) (lazy \<and> c1 = []) of
                  None \<Rightarrow> []
                | Some n \<Rightarrow> if n \<noteq> 0 then [TmdbIs n] else [])
      in c1 @ c2)"

text \<open>The loop leaves at the first round that found a condition.\<close>

definition conditions_of :: "'q candidate \<Rightarrow> condition list" where
  "conditions_of e =
     (if gather_conditions e False \<noteq> [] then gather_conditions e False
      else gather_conditions e True)"

text \<open>
  The quality collaborator is a parameter: \<open>allows req qv\<close> is
  \<open>Requirements(req).allows(qv)\<close> for the text \<open>req\<close> of the row's column \<open>quality\<close>, and
  \<open>default_quality\<close> is \<open>qualities.Quality()\<close>. The registration of lazy fields and the
  logging of \<open>matches\<close> do not touch the table and are left out.
\<close>

text \<open>
  Modelled from the spec: the quality collaborator (flexget.utils.qualities) is not part
  of the file. The requirement built from the text \<open>any\<close> is the universal-accept default
  and allows every observed quality (spec 6 and 8); what a requirement built from another
  text allows is left to the parameter \<open>grammar\<close>.
\<close>

definition requirement_allows :: "(string \<Rightarrow> 'q \<Rightarrow> bool) \<Rightarrow> string \<Rightarrow> 'q \<Rightarrow> bool" where
  "requirement_allows grammar req qv = (req = ''any'' \<or> grammar req qv)"

definition matches ::
  "(string \<Rightarrow> 'q \<Rightarrow> bool) \<Rightarrow> 'q \<Rightarrow> config option \<Rightarrow> 'q candidate \<Rightarrow> session \<Rightarrow>
     QueuedMovie option" where
  "matches allows default_quality cfg e s =
     (if \<not> truthy_config cfg then None
      else if config_action cfg \<noteq> Some ''accept'' then None
      else if conditions_of e = [] then None
      else
        (let qv = (case c_quality e of None \<Rightarrow> default_quality | Some x \<Rightarrow> x) in
         case first_row (filter (\<lambda>r. downloaded r = None
                                      \<and> list_ex (condition_holds r) (conditions_of e)) s) of
           None \<Rightarrow> None
         | Some movie \<Rightarrow> if allows (quality movie) qv then Some movie else None))"

subsection \<open>MovieQueueListAPI.get\<close>

text \<open>
  The three bodies the handler answers with. \<open>to_dict\<close> lists the columns of a row, so a
  listed movie is the row itself; the four fields of \<open>MovieList\<close> are \<open>movies\<close>,
  \<open>number_of_movies\<close>, \<open>page_number\<close> and \<open>total_number_of_pages\<close>.
\<close>

datatype response =
    NoMoviesFound
  | PageDoesNotExist int
  | MovieList "QueuedMovie list" int int int

text \<open>\<open>movie_queue[movie_number]\<close>: a negative index counts from the end of the list.\<close>

definition py_index :: "'a list \<Rightarrow> int \<Rightarrow> error + 'a" where
  "py_index xs i =
     (if 0 \<le> i \<and> i < int (length xs) then Inr (xs ! nat i)
      else if i < 0 \<and> 0 \<le> int (length xs) + i then Inr (xs ! nat (int (length xs) + i))
      else Inl IndexError)"

text \<open>The loop over \<open>range(start, finish)\<close> that appends to \<open>movie_items\<close>.\<close>

fun append_items :: "'a list \<Rightarrow> int list \<Rightarrow> 'a list \<Rightarrow> error + 'a list" where
  "append_items movie_queue [] movie_items = Inr movie_items"
| "append_items movie_queue (n # ns) movie_items =
     (case py_index movie_queue n of
        Inl e \<Rightarrow> Inl e
      | Inr m \<Rightarrow> append_items movie_queue ns (movie_items @ [m]))"

text \<open>
  \<open>float(max_results)\<close> raises \<open>OverflowError\<close> for an integer that rounds (to nearest,
  ties to even) beyond the largest double \<open>2 ^ 1024 - 2 ^ 971\<close>.
\<close>

definition float_overflows :: "int \<Rightarrow> bool" where
  "float_overflows x = (2 ^ 1024 - 2 ^ 970 \<le> \<bar>x\<bar>)"

text \<open>
  \<open>int(ceil(count / float(max_results)))\<close> for a divisor that \<open>float\<close> converts and that
  is not zero, with the quotient taken in the reals: the float quotient has the same
  ceiling as long as the count is below \<open>2 ^ 53\<close>, which the length of a listing is.
\<close>

definition total_pages :: "int \<Rightarrow> int \<Rightarrow> int" where
  "total_pages count max_results = \<lceil>real_of_int count / real_of_int max_results\<rceil>"

definition api_get :: "int \<Rightarrow> int \<Rightarrow> bool \<Rightarrow> session \<Rightarrow> error + response" where
  "api_get page max_results only_downloaded s =
     (let movie_queue = queue_get only_downloaded s;
          count = int (length movie_queue)
      in if count = 0 then Inr NoMoviesFound
         else if float_overflows max_results then Inl OverflowError
         else if max_results = 0 then Inl ZeroDivisionError
         else
           (let pages = total_pages count max_results in
            if page > pages then Inr (PageDoesNotExist page)
            else
              (let start = (page - 1) * max_results;
                   finish = (if start + max_results > count then count
                             else start + max_results)
               in case append_items movie_queue [start..finish - 1] [] of
                    Inl e \<Rightarrow> Inl e
                  | Inr movie_items \<Rightarrow> Inr (MovieList movie_items count page pages))))"

subsection \<open>Example data\<close>

text \<open>
  A catalogue that knows one movie stands for the lookup plugins, and a small quality
  scale (a quality is its vertical resolution) for the quality collaborator.
\<close>

definition one_movie_catalogue :: collaborators where
  "one_movie_catalogue =
     \<lparr> extract_id = (\<lambda>w. if take 2 w = ''tt'' \<and> length w = 9 then Some w else None),
       tmdb_of_text = (\<lambda>w. if w = ''603'' then 603 else 0),
       lookup = (\<lambda>e. if se_imdb_id e = Some ''tt0133093'' \<or> se_tmdb_id e = Some 603
                          \<or> se_title e = ''The Matrix''
                       then (Some ''The Matrix'', Some ''tt0133093'', Some 603)
                       else (None, se_imdb_id e, se_tmdb_id e)) \<rparr>"

definition resolution_grammar :: "string \<Rightarrow> nat \<Rightarrow> bool" where
  "resolution_grammar req qv =
     ((req = ''720p+'' \<and> 720 \<le> qv) \<or> (req = ''1080p'' \<and> qv = 1080))"

definition resolution_allows :: "string \<Rightarrow> nat \<Rightarrow> bool" where
  "resolution_allows = requirement_allows resolution_grammar"

definition wanted_matrix :: QueuedMovie where
  "wanted_matrix =
     \<lparr> movie_id = 1, title = Some ''The Matrix'', imdb_id = Some ''tt0133093'',
       tmdb_id = Some 603, quality = ''any'', added = 10, downloaded = None,
       entry_title = None, entry_url = None, entry_original_url = None \<rparr>"

definition seen_alien :: QueuedMovie where
  "seen_alien =
     \<lparr> movie_id = 2, title = Some ''Alien'', imdb_id = Some ''tt0078748'',
       tmdb_id = Some 348, quality = ''720p+'', added = 11, downloaded = Some 20,
       entry_title = Some ''Alien.1979.720p'', entry_url = Some ''http://example.org/alien'',
       entry_original_url = Some ''http://example.org/alien.torrent'' \<rparr>"

definition wanted_row :: "nat \<Rightarrow> string \<Rightarrow> string option \<Rightarrow> int option \<Rightarrow> string \<Rightarrow> QueuedMovie" where
  "wanted_row n t a b q =
     \<lparr> movie_id = n, title = Some t, imdb_id = a, tmdb_id = b, quality = q, added = 30,
       downloaded = None, entry_title = None, entry_url = None,
       entry_original_url = None \<rparr>"

definition matrix_twice :: session where
  "matrix_twice =
     [wanted_row 1 ''The Matrix'' (Some ''tt0133093'') None ''1080p'',
      wanted_row 2 ''The Matrix'' None (Some 603) ''any'']"

definition matrix_seen_then_wanted :: session where
  "matrix_seen_then_wanted =
     [(wanted_row 1 ''The Matrix'' (Some ''tt0133093'') None ''1080p'')\<lparr>downloaded := Some 40\<rparr>,
      wanted_row 2 ''The Matrix'' None (Some 603) ''any'']"

definition matrix_release :: "nat candidate" where
  "matrix_release =
     \<lparr> c_imdb_id = Populated (Some ''tt0133093''), c_tmdb_id = Populated (Some 603),
       c_quality = Some 720 \<rparr>"

definition five_wanted :: session where
  "five_wanted =
     [wanted_row 1 ''Alien'' (Some ''tt0078748'') None ''any'',
      wanted_row 2 ''Brazil'' (Some ''tt0088846'') None ''any'',
      wanted_row 3 ''Contact'' (Some ''tt0118884'') None ''any'',
      wanted_row 4 ''Dune'' (Some ''tt0087182'') None ''any'',
      wanted_row 5 ''Heat'' (Some ''tt0113277'') None ''any'']"

section \<open>Auxiliary facts\<close>

lemmas example_defs =
  one_movie_catalogue_def resolution_allows_def requirement_allows_def
  resolution_grammar_def wanted_matrix_def seen_alien_def wanted_row_def

lemmas python_defs = truthy_str_def truthy_int_def py_or_def first_row_def one_row_def

subsection \<open>Results of \<open>first()\<close> and \<open>one()\<close>\<close>

lemma first_row_filter_split:
  assumes "\<forall>r\<in>set pre. \<not> P r" and "P item"
  shows "first_row (filter P (pre @ item # post)) = Some item"
proof -
  from assms(1) have "filter P pre = []" by (simp add: filter_empty_conv)
  with assms(2) show ?thesis by (simp add: first_row_def)
qed

lemma first_row_filter_Some:
  "first_row (filter P s) = Some m \<Longrightarrow>
     \<exists>pre post. s = pre @ m # post \<and> (\<forall>r\<in>set pre. \<not> P r) \<and> P m"
proof (induction s)
  case Nil
  then show ?case by (simp add: first_row_def)
next
  case (Cons x xs)
  show ?case
  proof (cases "P x")
    case True
    with Cons.prems have "x = m" by (simp add: first_row_def)
    with True have "x # xs = [] @ m # xs \<and> (\<forall>r\<in>set []. \<not> P r) \<and> P m" by simp
    then show ?thesis by blast
  next
    case False
    with Cons.prems have "first_row (filter P xs) = Some m" by simp
    from Cons.IH [OF this] obtain pre post
      where "xs = pre @ m # post" "\<forall>r\<in>set pre. \<not> P r" "P m" by blast
    with False have "x # xs = (x # pre) @ m # post \<and> (\<forall>r\<in>set (x # pre). \<not> P r) \<and> P m"
      by simp
    then show ?thesis by blast
  qed
qed

lemma first_row_none: "(first_row rows = None) = (rows = [])"
  by (cases rows) (simp_all add: first_row_def)

lemma first_row_some: "first_row rows = Some r \<Longrightarrow> r \<in> set rows"
  by (cases rows) (simp_all add: first_row_def)

lemma one_row_Inr: "(one_row rows = Inr r) = (rows = [r])"
proof (cases rows)
  case Nil
  then show ?thesis by (simp add: one_row_def)
next
  case (Cons x xs)
  then show ?thesis by (cases xs) (auto simp: one_row_def)
qed

lemma one_row_many: "(one_row rows = Inl MultipleResultsFound) = (1 < length rows)"
proof (cases rows)
  case Nil
  then show ?thesis by (simp add: one_row_def)
next
  case (Cons x xs)
  then show ?thesis by (cases xs) (auto simp: one_row_def)
qed

subsection \<open>Deleting and updating a row by its primary key\<close>

lemma session_delete_remove1:
  assumes "distinct (map movie_id s)" and "item \<in> set s"
  shows "session_delete item s = remove1 item s"
  using assms
proof (induction s)
  case Nil
  then show ?case by simp
next
  case (Cons x xs)
  show ?case
  proof (cases "x = item")
    case True
    with Cons.prems(1) have "movie_id item \<notin> movie_id ` set xs" by simp
    then have "\<forall>r\<in>set xs. movie_id r \<noteq> movie_id item" by (metis imageI)
    then have "filter (\<lambda>r. movie_id r \<noteq> movie_id item) xs = xs"
      by (simp add: filter_id_conv)
    with True show ?thesis by (simp add: session_delete_def)
  next
    case False
    with Cons.prems have mem: "item \<in> set xs" and d: "distinct (map movie_id xs)"
      and "movie_id x \<notin> movie_id ` set xs" by auto
    then have "movie_id x \<noteq> movie_id item" by auto
    with Cons.IH [OF d mem] False show ?thesis by (simp add: session_delete_def)
  qed
qed

lemma session_update_nth:
  assumes "distinct (map movie_id s)" and "i < length s" and "movie_id x = movie_id (s ! i)"
  shows "session_update x s = s[i := x]"
proof (rule nth_equalityI)
  show "length (session_update x s) = length (s[i := x])" by (simp add: session_update_def)
next
  fix j assume "j < length (session_update x s)"
  then have j: "j < length s" by (simp add: session_update_def)
  show "session_update x s ! j = s[i := x] ! j"
  proof (cases "j = i")
    case True
    with assms j show ?thesis by (simp add: session_update_def)
  next
    case False
    from assms(1) j assms(2) False have "movie_id (s ! j) \<noteq> movie_id (s ! i)"
      using nth_eq_iff_index_eq [of "map movie_id s" j i] by simp
    with assms(3) have "movie_id (s ! j) \<noteq> movie_id x" by simp
    with j False show ?thesis by (simp add: session_update_def)
  qed
qed

subsection \<open>Configuration, page count and the loop over a page\<close>

lemma config_accept_truthy: "config_action cfg = Some ''accept'' \<Longrightarrow> truthy_config cfg"
  by (auto simp: config_action_def truthy_config_def split: option.splits config.splits)

lemma total_pages_bounds:
  assumes "0 < m"
  shows "(total_pages n m - 1) * m < n" and "n \<le> total_pages n m * m"
proof -
  let ?x = "real_of_int n / real_of_int m"
  from assms have m: "0 < real_of_int m" by simp
  have "real_of_int \<lceil>?x\<rceil> - 1 < ?x"
    using ceiling_correct [of ?x] by blast
  then have lo: "(real_of_int \<lceil>?x\<rceil> - 1) * real_of_int m < real_of_int n"
    using pos_less_divide_eq [OF m, of "real_of_int \<lceil>?x\<rceil> - 1" "real_of_int n"] by blast
  have "?x \<le> real_of_int \<lceil>?x\<rceil>"
    by (rule le_of_int_ceiling)
  then have hi: "real_of_int n \<le> real_of_int \<lceil>?x\<rceil> * real_of_int m"
    using pos_divide_le_eq [OF m, of "real_of_int n" "real_of_int \<lceil>?x\<rceil>"] by blast
  from lo hi
  have "real_of_int ((\<lceil>?x\<rceil> - 1) * m) < real_of_int n"
    and "real_of_int n \<le> real_of_int (\<lceil>?x\<rceil> * m)" by simp_all
  then show "(total_pages n m - 1) * m < n" and "n \<le> total_pages n m * m"
    unfolding total_pages_def by linarith+
qed

lemma total_pages_negative_size:
  assumes "0 < n" and "m < 0"
  shows "total_pages n m \<le> 0"
proof -
  from assms have "real_of_int n / real_of_int m \<le> 0"
    by (simp add: divide_le_0_iff)
  then show ?thesis
    unfolding total_pages_def using ceiling_le_iff [of "real_of_int n / real_of_int m" 0]
    by simp
qed

lemma append_items_slice:
  assumes "0 \<le> a" and "b \<le> int (length q)"
  shows "append_items q [a..b - 1] acc = Inr (acc @ drop (nat a) (take (nat b) q))"
  using assms
proof (induction "nat (b - a)" arbitrary: a acc)
  case 0
  then have "b \<le> a" by simp
  then have "[a..b - 1] = []" by simp
  moreover from \<open>b \<le> a\<close> have "drop (nat a) (take (nat b) q) = []" by simp
  ultimately show ?case by simp
next
  case (Suc k)
  then have ab: "a < b" and k: "k = nat (b - (a + 1))" by linarith+
  from ab have up: "[a..b - 1] = a # [a + 1..b - 1]" by (simp add: upto_rec1)
  from ab Suc.prems have idx: "py_index q a = Inr (q ! nat a)" by (simp add: py_index_def)
  from ab Suc.prems have lt: "nat a < length (take (nat b) q)" by simp
  have "append_items q [a + 1..b - 1] (acc @ [q ! nat a])
          = Inr ((acc @ [q ! nat a]) @ drop (nat (a + 1)) (take (nat b) q))"
    using Suc.prems by (intro Suc.hyps(1) k) simp_all
  moreover from Suc.prems have "nat (a + 1) = Suc (nat a)" by simp
  moreover from ab Suc.prems have "take (nat b) q ! nat a = q ! nat a" by simp
  ultimately show ?case
    using Cons_nth_drop_Suc [OF lt] by (simp add: up idx)
qed

section \<open>queue_add\<close>

text \<open>
  An input on which the dedup query of \<open>queue_add\<close> meets only a downloaded row: the
  table holds no un-downloaded row at all, the identity is complete (no lookup), and the
  call is still refused, with the message of an already downloaded movie.
\<close>

theorem queue_add_downloaded_counterexample:
  "queue_get False [seen_alien] = []
   \<and> queue_add one_movie_catalogue 30 (Some ''Alien'') (Some ''tt0078748'') (Some 348) None
        [seen_alien]
      = (Inl (QueueError AlreadyDownloaded 1), [seen_alien])"
  by (simp add: queue_get_def queue_add_def queue_add_identity_def already_queued_def
      python_defs seen_alien_def)

text \<open>
  Claim C1, as amended. The dedup query of \<open>queue_add\<close> has no condition on
  \<open>downloaded\<close>: it is evaluated against every row. For the identity \<open>(t, a, b)\<close> that the
  call resolves to: when no row of the table carries \<open>a\<close> as a non-null \<open>imdb_id\<close> or \<open>b\<close>
  as a non-null \<open>tmdb_id\<close>, the call succeeds, returns the identity with the quality
  requirement, and appends one row with \<open>downloaded = None\<close>; when some row does, the call
  fails with one of the two conflict errors and leaves the table as it was; and when every
  row that does is a downloaded one, the error is the one of an already downloaded movie.
\<close>

theorem queue_add_checks_every_row:
  assumes "queue_add_identity C ttl imdb tmdb = Inr (t, a, b)"
  shows "((\<forall>r\<in>set s. \<not> already_queued a b r) \<longrightarrow>
            queue_add C now ttl imdb tmdb qual s =
              (Inr ((t, a, b), case qual of None \<Rightarrow> ''any'' | Some x \<Rightarrow> x),
               s @ [\<lparr> movie_id = fresh_id s, title = t, imdb_id = a, tmdb_id = b,
                       quality = (case qual of None \<Rightarrow> ''any'' | Some x \<Rightarrow> x), added = now,
                       downloaded = None, entry_title = None, entry_url = None,
                       entry_original_url = None \<rparr>]))
       \<and> ((\<exists>r\<in>set s. already_queued a b r) \<longrightarrow>
            queue_add C now ttl imdb tmdb qual s = (Inl (QueueError AlreadyQueued 1), s)
            \<or> queue_add C now ttl imdb tmdb qual s = (Inl (QueueError AlreadyDownloaded 1), s))
       \<and> ((\<exists>r\<in>set s. already_queued a b r)
            \<and> (\<forall>r\<in>set s. already_queued a b r \<longrightarrow> downloaded r \<noteq> None) \<longrightarrow>
            queue_add C now ttl imdb tmdb qual s = (Inl (QueueError AlreadyDownloaded 1), s))"
proof (intro conjI impI)
  assume "\<forall>r\<in>set s. \<not> already_queued a b r"
  then have "first_row (filter (already_queued a b) s) = None"
    by (simp add: first_row_none filter_empty_conv)
  with assms show "queue_add C now ttl imdb tmdb qual s =
              (Inr ((t, a, b), case qual of None \<Rightarrow> ''any'' | Some x \<Rightarrow> x),
               s @ [\<lparr> movie_id = fresh_id s, title = t, imdb_id = a, tmdb_id = b,
                       quality = (case qual of None \<Rightarrow> ''any'' | Some x \<Rightarrow> x), added = now,
                       downloaded = None, entry_title = None, entry_url = None,
                       entry_original_url = None \<rparr>])"
    by (simp add: queue_add_def Let_def)
next
  assume "\<exists>r\<in>set s. already_queued a b r"
  then have "filter (already_queued a b) s \<noteq> []" by (simp add: filter_empty_conv)
  then obtain item where "first_row (filter (already_queued a b) s) = Some item"
    by (cases "filter (already_queued a b) s") (auto simp: first_row_def)
  with assms show "queue_add C now ttl imdb tmdb qual s = (Inl (QueueError AlreadyQueued 1), s)
            \<or> queue_add C now ttl imdb tmdb qual s = (Inl (QueueError AlreadyDownloaded 1), s)"
    by (simp add: queue_add_def)
next
  assume h: "(\<exists>r\<in>set s. already_queued a b r)
            \<and> (\<forall>r\<in>set s. already_queued a b r \<longrightarrow> downloaded r \<noteq> None)"
  then have "filter (already_queued a b) s \<noteq> []" by (simp add: filter_empty_conv)
  then obtain item where item: "first_row (filter (already_queued a b) s) = Some item"
    by (cases "filter (already_queued a b) s") (auto simp: first_row_def)
  then have "item \<in> set (filter (already_queued a b) s)" by (rule first_row_some)
  with h have "downloaded item \<noteq> None" by auto
  with assms item show "queue_add C now ttl imdb tmdb qual s = (Inl (QueueError AlreadyDownloaded 1), s)"
    by (simp add: queue_add_def)
qed

text \<open>
  The theorem at work on the table that holds the downloaded movie "Alien": adding
  "The Matrix" by its imdb id (resolved through the catalogue) appends a wanted row;
  adding "Alien" again is refused.
\<close>

theorem queue_add_checks_every_row_witness:
  "queue_add_identity one_movie_catalogue None (Some ''tt0133093'') None
     = Inr (Some ''The Matrix'', Some ''tt0133093'', Some 603)
   \<and> queue_add one_movie_catalogue 30 None (Some ''tt0133093'') None None [seen_alien]
     = (Inr ((Some ''The Matrix'', Some ''tt0133093'', Some 603), ''any''),
        [seen_alien, wanted_row 3 ''The Matrix'' (Some ''tt0133093'') (Some 603) ''any''])
   \<and> queue_add_identity one_movie_catalogue (Some ''Alien'') (Some ''tt0078748'') None
     = Inr (Some ''Alien'', Some ''tt0078748'', None)
   \<and> queue_add one_movie_catalogue 30 (Some ''Alien'') (Some ''tt0078748'') None None
        [seen_alien]
     = (Inl (QueueError AlreadyDownloaded 1), [seen_alien])"
proof -
  have id1: "queue_add_identity one_movie_catalogue None (Some ''tt0133093'') None
               = Inr (Some ''The Matrix'', Some ''tt0133093'', Some 603)"
    by (simp add: queue_add_identity_def parse_what_def python_defs one_movie_catalogue_def)
  have id2: "queue_add_identity one_movie_catalogue (Some ''Alien'') (Some ''tt0078748'') None
               = Inr (Some ''Alien'', Some ''tt0078748'', None)"
    by (simp add: queue_add_identity_def python_defs)
  have free: "\<forall>r\<in>set [seen_alien]. \<not> already_queued (Some ''tt0133093'') (Some 603) r"
    by (simp add: already_queued_def seen_alien_def)
  have held: "(\<exists>r\<in>set [seen_alien]. already_queued (Some ''tt0078748'') None r)
       \<and> (\<forall>r\<in>set [seen_alien]. already_queued (Some ''tt0078748'') None r
              \<longrightarrow> downloaded r \<noteq> None)"
    by (simp add: already_queued_def seen_alien_def)
  have fresh: "fresh_id [seen_alien] = 3"
    by (simp add: fresh_id_def seen_alien_def)
  show ?thesis
    using queue_add_checks_every_row [OF id1, of "[seen_alien]" 30 None]
      queue_add_checks_every_row [OF id2, of "[seen_alien]" 30 None]
      id1 id2 free held fresh
    by (simp add: wanted_row_def)
qed

text \<open>
  A table on which an add matches two rows: "The Matrix" was queued by imdb id and has
  been downloaded, and is wanted again by tmdb id. An add that carries both ids matches
  the wanted row on the tmdb id, and is refused with the message of an already
  downloaded movie, because the downloaded row comes first in the query's result.
\<close>

theorem queue_add_wanted_match_counterexample:
  "downloaded (matrix_seen_then_wanted ! 1) = None
   \<and> tmdb_id (matrix_seen_then_wanted ! 1) = Some 603
   \<and> already_queued (Some ''tt0133093'') (Some 603) (matrix_seen_then_wanted ! 1)
   \<and> queue_add one_movie_catalogue 50 (Some ''The Matrix'') (Some ''tt0133093'') (Some 603)
        None matrix_seen_then_wanted
      = (Inl (QueueError AlreadyDownloaded 1), matrix_seen_then_wanted)"
  by (simp add: matrix_seen_then_wanted_def queue_add_def queue_add_identity_def
      already_queued_def python_defs wanted_row_def)

text \<open>
  Claim C2, as amended. For the identity \<open>(t, a, b)\<close> that the call resolves to, let \<open>item\<close>
  be the first row of the table, in table order, that carries \<open>a\<close> as a non-null \<open>imdb_id\<close>
  or \<open>b\<close> as a non-null \<open>tmdb_id\<close>. Then \<open>queue_add\<close> raises \<open>QueueError\<close> with \<open>errno = 1\<close>:
  with the message "already in the queue" when \<open>downloaded\<close> of \<open>item\<close> is null and with the
  message "already been queued and downloaded" when it is not; rows that match later in
  the table have no say. No row is added: the table is returned unchanged.
\<close>

theorem queue_add_conflict:
  assumes "queue_add_identity C ttl imdb tmdb = Inr (t, a, b)"
    and "s = pre @ item # post"
    and "\<forall>r\<in>set pre. \<not> already_queued a b r"
    and "already_queued a b item"
  shows "queue_add C now ttl imdb tmdb qual s =
           (Inl (QueueError (if downloaded item = None then AlreadyQueued
                             else AlreadyDownloaded) 1), s)"
proof -
  have "first_row (filter (already_queued a b) s) = Some item"
    unfolding assms(2) using assms(3,4) by (rule first_row_filter_split)
  with assms(1) show ?thesis
    by (simp add: queue_add_def)
qed

text \<open>
  Both conflicts on one table: "The Matrix" is wanted (the second row, found through the
  lookup of its imdb id), "Alien" is downloaded (the first row, found by its tmdb id).
\<close>

theorem queue_add_conflict_witness:
  "queue_add one_movie_catalogue 30 None (Some ''tt0133093'') None None
       [seen_alien, wanted_matrix] =
     (Inl (QueueError AlreadyQueued 1), [seen_alien, wanted_matrix])
   \<and> queue_add one_movie_catalogue 30 (Some ''Alien'') None (Some 348) (Some ''1080p'')
       [seen_alien, wanted_matrix] =
     (Inl (QueueError AlreadyDownloaded 1), [seen_alien, wanted_matrix])"
proof -
  have id1: "queue_add_identity one_movie_catalogue None (Some ''tt0133093'') None
               = Inr (Some ''The Matrix'', Some ''tt0133093'', Some 603)"
    by (simp add: queue_add_identity_def parse_what_def python_defs one_movie_catalogue_def)
  have id2: "queue_add_identity one_movie_catalogue (Some ''Alien'') None (Some 348)
               = Inr (Some ''Alien'', None, Some 348)"
    by (simp add: queue_add_identity_def python_defs)
  have a: "\<forall>r\<in>set [seen_alien]. \<not> already_queued (Some ''tt0133093'') (Some 603) r"
    by (simp add: already_queued_def seen_alien_def)
  have b: "already_queued (Some ''tt0133093'') (Some 603) wanted_matrix"
    by (simp add: already_queued_def wanted_matrix_def)
  have c: "\<forall>r\<in>set []. \<not> already_queued None (Some 348) r" by simp
  have d: "already_queued None (Some 348) seen_alien"
    by (simp add: already_queued_def seen_alien_def)
  have s1: "[seen_alien, wanted_matrix] = [seen_alien] @ wanted_matrix # []" by simp
  have s2: "[seen_alien, wanted_matrix] = [] @ seen_alien # [wanted_matrix]" by simp
  show ?thesis
    using queue_add_conflict [OF id1 s1 a b, of 30 None]
      queue_add_conflict [OF id2 s2 c d, of 30 "Some ''1080p''"]
    by (simp add: wanted_matrix_def seen_alien_def)
qed

text \<open>
  Claim C4 (the code departs from it). A call of \<open>queue_add\<close> that gives only a
  \<open>tmdb_id\<close> has an incomplete identity and goes to \<open>parse_what\<close>, but what it hands over
  is \<open>imdb_id or title\<close>, that is \<open>None\<close>: the \<open>tmdb_id\<close> never reaches the lookup, and
  \<open>parse_what\<close> raises \<open>AttributeError\<close>. Nothing is resolved and nothing is inserted,
  whatever the lookup collaborators would answer.
\<close>

theorem queue_add_tmdb_only:
  "queue_add C now None None tmdb qual s = (Inl AttributeError, s)"
  by (simp add: queue_add_def queue_add_identity_def parse_what_def py_or_def truthy_str_def)

section \<open>MovieQueue.matches\<close>

text \<open>
  A table that two calls of \<open>queue_add\<close> build from the empty one: "The Matrix" wanted by
  imdb id in 1080p, and wanted by tmdb id in any quality. A 720p release that carries
  both ids is not matched: the query's first row is the 1080p one, which refuses it,
  although the second row is un-downloaded, agrees on the tmdb id and allows 720p.
\<close>

theorem matches_later_row_counterexample:
  "snd (queue_add one_movie_catalogue 30 (Some ''The Matrix'') None (Some 603) (Some ''any'')
         (snd (queue_add one_movie_catalogue 30 (Some ''The Matrix'') (Some ''tt0133093'')
                 None (Some ''1080p'') [])))
     = matrix_twice
   \<and> matches resolution_allows 0 (Some (ConfigStr ''accept'')) matrix_release matrix_twice
       = None
   \<and> matrix_twice ! 1 = wanted_row 2 ''The Matrix'' None (Some 603) ''any''
   \<and> downloaded (matrix_twice ! 1) = None
   \<and> tmdb_id (matrix_twice ! 1) = Some 603
   \<and> c_tmdb_id matrix_release = Populated (Some 603)
   \<and> c_quality matrix_release = Some 720
   \<and> resolution_allows (quality (matrix_twice ! 1)) 720"
  by (simp add: matrix_twice_def matrix_release_def queue_add_def queue_add_identity_def
      already_queued_def fresh_id_def matches_def truthy_config_def config_action_def
      conditions_of_def gather_conditions_def Let_def python_defs example_defs)

text \<open>
  Claim C3, as amended. With the action \<open>accept\<close> and a candidate for which the
  two-round extraction finds at least one id, \<open>matches\<close> returns the row \<open>m\<close> if and only if
  \<open>m\<close> is the first row of the table (in table order) that has \<open>downloaded\<close> null and agrees
  with the candidate on one of the ids found, and the quality requirement of \<open>m\<close> allows
  the candidate's quality, the default quality standing in for an unknown one. For a
  candidate with both ids populated, agreeing means: the same \<open>imdb_id\<close> or the same
  \<open>tmdb_id\<close>. The requirement \<open>any\<close> accepts the default quality: a candidate of unknown
  quality is returned the first such row when that row's requirement is \<open>any\<close>.
\<close>

theorem matches_first_wanted_row:
  assumes "config_action cfg = Some ''accept''"
    and "conditions_of e \<noteq> []"
  shows "((matches allows default_quality cfg e s = Some m) =
          (\<exists>pre post. s = pre @ m # post
             \<and> (\<forall>r\<in>set pre. \<not> (downloaded r = None
                                  \<and> list_ex (condition_holds r) (conditions_of e)))
             \<and> downloaded m = None \<and> list_ex (condition_holds m) (conditions_of e)
             \<and> allows (quality m) (case c_quality e of None \<Rightarrow> default_quality | Some x \<Rightarrow> x)))
       \<and> (c_imdb_id e = Populated (Some a) \<and> a \<noteq> [] \<and> c_tmdb_id e = Populated (Some b) \<and> b \<noteq> 0
            \<longrightarrow> (\<forall>r. list_ex (condition_holds r) (conditions_of e)
                        = (imdb_id r = Some a \<or> tmdb_id r = Some b)))
       \<and> (c_quality e = None \<and> quality m = ''any'' \<and> s = pre @ m # post
            \<and> (\<forall>r\<in>set pre. \<not> (downloaded r = None
                                 \<and> list_ex (condition_holds r) (conditions_of e)))
            \<and> downloaded m = None \<and> list_ex (condition_holds m) (conditions_of e)
            \<longrightarrow> requirement_allows grammar ''any'' default_quality
                \<and> matches (requirement_allows grammar) default_quality cfg e s = Some m)"
proof -
  let ?P = "\<lambda>r. downloaded r = None \<and> list_ex (condition_holds r) (conditions_of e)"
  let ?qv = "case c_quality e of None \<Rightarrow> default_quality | Some x \<Rightarrow> x"
  have m: "matches al default_quality cfg e s =
      (case first_row (filter ?P s) of None \<Rightarrow> None
       | Some movie \<Rightarrow> if al (quality movie) ?qv then Some movie else None)" for al
    using assms config_accept_truthy [OF assms(1)] by (simp add: matches_def)
  have one: "(matches allows default_quality cfg e s = Some m) =
          (\<exists>pre post. s = pre @ m # post \<and> (\<forall>r\<in>set pre. \<not> ?P r)
             \<and> downloaded m = None \<and> list_ex (condition_holds m) (conditions_of e)
             \<and> allows (quality m) ?qv)"
  proof
    assume "matches allows default_quality cfg e s = Some m"
    with m [of allows] have f: "first_row (filter ?P s) = Some m"
      and al: "allows (quality m) ?qv"
      by (auto split: option.splits if_splits)
    from first_row_filter_Some [OF f] al
    show "\<exists>pre post. s = pre @ m # post \<and> (\<forall>r\<in>set pre. \<not> ?P r)
             \<and> downloaded m = None \<and> list_ex (condition_holds m) (conditions_of e)
             \<and> allows (quality m) ?qv" by blast
  next
    assume "\<exists>pre post. s = pre @ m # post \<and> (\<forall>r\<in>set pre. \<not> ?P r)
             \<and> downloaded m = None \<and> list_ex (condition_holds m) (conditions_of e)
             \<and> allows (quality m) ?qv"
    then obtain pre post where s: "s = pre @ m # post" and pre: "\<forall>r\<in>set pre. \<not> ?P r"
      and pm: "?P m" and al: "allows (quality m) ?qv" by blast
    have "first_row (filter ?P s) = Some m"
      unfolding s using pre pm by (rule first_row_filter_split)
    with m [of allows] al show "matches allows default_quality cfg e s = Some m" by simp
  qed
  have two: "c_imdb_id e = Populated (Some a) \<and> a \<noteq> [] \<and> c_tmdb_id e = Populated (Some b) \<and> b \<noteq> 0
            \<longrightarrow> (\<forall>r. list_ex (condition_holds r) (conditions_of e)
                        = (imdb_id r = Some a \<or> tmdb_id r = Some b))"
    by (simp add: conditions_of_def gather_conditions_def)
  have three: "c_quality e = None \<and> quality m = ''any'' \<and> s = pre @ m # post
            \<and> (\<forall>r\<in>set pre. \<not> ?P r)
            \<and> downloaded m = None \<and> list_ex (condition_holds m) (conditions_of e)
            \<longrightarrow> requirement_allows grammar ''any'' default_quality
                \<and> matches (requirement_allows grammar) default_quality cfg e s = Some m"
  proof
    assume h: "c_quality e = None \<and> quality m = ''any'' \<and> s = pre @ m # post
            \<and> (\<forall>r\<in>set pre. \<not> ?P r)
            \<and> downloaded m = None \<and> list_ex (condition_holds m) (conditions_of e)"
    then have pre: "\<forall>r\<in>set pre. \<not> ?P r" and pm: "?P m" and s: "s = pre @ m # post"
      by blast+
    have "first_row (filter ?P s) = Some m"
      unfolding s using pre pm by (rule first_row_filter_split)
    then have f: "first_row (filter ?P s) = Some m" .
    from h have "c_quality e = None" and "quality m = ''any''" by blast+
    with f show "requirement_allows grammar ''any'' default_quality
                \<and> matches (requirement_allows grammar) default_quality cfg e s = Some m"
      by (simp add: m [of "requirement_allows grammar"] requirement_allows_def)
  qed
  from one two three show ?thesis by blast
qed

text \<open>
  A candidate of unknown quality whose imdb id comes from the lazy lookup: the downloaded
  row is passed over, and the wanted row with the requirement \<open>any\<close> is returned.
\<close>

theorem matches_first_wanted_row_witness:
  "config_action (Some (ConfigDict ''accept'' None)) = Some ''accept''
   \<and> conditions_of \<lparr> c_imdb_id = Lazy (Some ''tt0133093''), c_tmdb_id = Populated None,
                      c_quality = (None :: nat option) \<rparr> = [ImdbIs ''tt0133093'']
   \<and> quality wanted_matrix = ''any''
   \<and> requirement_allows resolution_grammar ''any'' (0 :: nat)
   \<and> matches (requirement_allows resolution_grammar) 0 (Some (ConfigDict ''accept'' None))
        \<lparr> c_imdb_id = Lazy (Some ''tt0133093''), c_tmdb_id = Populated None,
          c_quality = None \<rparr> [seen_alien, wanted_matrix]
       = Some wanted_matrix"
proof -
  let ?e = "\<lparr> c_imdb_id = Lazy (Some ''tt0133093''), c_tmdb_id = Populated None,
              c_quality = (None :: nat option) \<rparr>"
  have cfg: "config_action (Some (ConfigDict ''accept'' None)) = Some ''accept''"
    by (simp add: config_action_def)
  have conds: "conditions_of ?e = [ImdbIs ''tt0133093'']"
    by (simp add: conditions_of_def gather_conditions_def)
  then have ne: "conditions_of ?e \<noteq> []" by simp
  have hyp: "c_quality ?e = None \<and> quality wanted_matrix = ''any''
             \<and> [seen_alien, wanted_matrix] = [seen_alien] @ wanted_matrix # []
             \<and> (\<forall>r\<in>set [seen_alien]. \<not> (downloaded r = None
                                  \<and> list_ex (condition_holds r) (conditions_of ?e)))
             \<and> downloaded wanted_matrix = None
             \<and> list_ex (condition_holds wanted_matrix) (conditions_of ?e)"
    unfolding conds by (simp add: example_defs)
  from matches_first_wanted_row [OF cfg ne, where m = wanted_matrix
      and s = "[seen_alien, wanted_matrix]" and pre = "[seen_alien]" and post = "[]"
      and grammar = resolution_grammar and default_quality = 0] hyp
  have "requirement_allows resolution_grammar ''any'' (0 :: nat)
        \<and> matches (requirement_allows resolution_grammar) 0
            (Some (ConfigDict ''accept'' None)) ?e [seen_alien, wanted_matrix]
          = Some wanted_matrix" by blast
  with cfg conds hyp show ?thesis by simp
qed

section \<open>queue_forget\<close>

text \<open>
  Forgetting the downloaded movie "Alien" succeeds and sets \<open>downloaded\<close> to null, and
  the three provenance columns still hold what they held.
\<close>

theorem queue_forget_provenance_counterexample:
  "downloaded seen_alien = Some 20
   \<and> queue_forget None (Some ''tt0078748'') None [seen_alien]
       = (Inr (Some ''Alien''), [seen_alien\<lparr>downloaded := None\<rparr>])
   \<and> entry_title (seen_alien\<lparr>downloaded := None\<rparr>) = Some ''Alien.1979.720p''
   \<and> entry_url (seen_alien\<lparr>downloaded := None\<rparr>) = Some ''http://example.org/alien''
   \<and> entry_original_url (seen_alien\<lparr>downloaded := None\<rparr>)
       = Some ''http://example.org/alien.torrent''"
  by (simp add: queue_forget_def session_update_def python_defs seen_alien_def)

text \<open>
  Claim C5, as amended. Let the selector of \<open>queue_forget\<close> (the first of \<open>imdb_id\<close>,
  \<open>tmdb_id\<close>, \<open>title\<close> that is given) choose exactly one row, and let that row be downloaded.
  Then the call succeeds, returns the row's title, and changes nothing of the table but
  \<open>downloaded\<close> of that row, which becomes null. Every successful call is of this kind:
  the row it changed is the one row its selector chose, that row was downloaded, its
  title, \<open>imdb_id\<close>, \<open>tmdb_id\<close> and quality requirement are unchanged, and so are the
  provenance columns \<open>entry_title\<close>, \<open>entry_url\<close> and \<open>entry_original_url\<close>, which are not
  cleared; all other rows are as they were. The ids of the table's rows are distinct
  (\<open>id\<close> is the primary key).
\<close>

theorem queue_forget_frame:
  assumes "distinct (map movie_id s)"
  shows "let rows = (if truthy_str imdb then filter (\<lambda>r. imdb_id r = imdb) s
                     else if truthy_int tmdb then filter (\<lambda>r. tmdb_id r = tmdb) s
                     else if truthy_str ttl then filter (\<lambda>r. title r = ttl) s
                     else s)
         in (\<forall>i<length s. rows = [s ! i] \<and> downloaded (s ! i) \<noteq> None \<longrightarrow>
               queue_forget ttl imdb tmdb s
                 = (Inr (title (s ! i)), s[i := (s ! i)\<lparr>downloaded := None\<rparr>]))
          \<and> (\<forall>t s'. queue_forget ttl imdb tmdb s = (Inr t, s') \<longrightarrow>
               (\<exists>i<length s. rows = [s ! i] \<and> downloaded (s ! i) \<noteq> None
                  \<and> t = title (s ! i)
                  \<and> s' = s[i := (s ! i)\<lparr>downloaded := None\<rparr>]
                  \<and> downloaded (s' ! i) = None
                  \<and> title (s' ! i) = title (s ! i) \<and> imdb_id (s' ! i) = imdb_id (s ! i)
                  \<and> tmdb_id (s' ! i) = tmdb_id (s ! i) \<and> quality (s' ! i) = quality (s ! i)
                  \<and> entry_title (s' ! i) = entry_title (s ! i)
                  \<and> entry_url (s' ! i) = entry_url (s ! i)
                  \<and> entry_original_url (s' ! i) = entry_original_url (s ! i)
                  \<and> (\<forall>j<length s. j \<noteq> i \<longrightarrow> s' ! j = s ! j)))"
proof -
  define rows where "rows =
     (if truthy_str imdb then filter (\<lambda>r. imdb_id r = imdb) s
      else if truthy_int tmdb then filter (\<lambda>r. tmdb_id r = tmdb) s
      else if truthy_str ttl then filter (\<lambda>r. title r = ttl) s
      else s)"
  have sub: "set rows \<subseteq> set s" by (auto simp: rows_def)
  have forget: "queue_forget ttl imdb tmdb s =
      (case one_row rows of
           Inr item \<Rightarrow>
             (if downloaded item = None
              then (Inl (QueueError NotDownloaded 0), s)
              else (Inr (title item), session_update (item\<lparr>downloaded := None\<rparr>) s))
         | Inl NoResultFound \<Rightarrow> (Inl (QueueError NotFound 0), s)
         | Inl e \<Rightarrow> (Inl e, s))"
    by (simp add: queue_forget_def rows_def)
  have upd: "session_update ((s ! i)\<lparr>downloaded := None\<rparr>) s = s[i := (s ! i)\<lparr>downloaded := None\<rparr>]"
    if "i < length s" for i
    using assms that by (simp add: session_update_nth)
  have a: "queue_forget ttl imdb tmdb s
             = (Inr (title (s ! i)), s[i := (s ! i)\<lparr>downloaded := None\<rparr>])"
    if "i < length s" and "rows = [s ! i] \<and> downloaded (s ! i) \<noteq> None" for i
  proof -
    from that(2) have "one_row rows = Inr (s ! i)" by (simp add: one_row_Inr)
    with that show ?thesis by (simp add: forget upd)
  qed
  have b: "\<exists>i<length s. rows = [s ! i] \<and> downloaded (s ! i) \<noteq> None
                  \<and> t = title (s ! i)
                  \<and> s' = s[i := (s ! i)\<lparr>downloaded := None\<rparr>]
                  \<and> downloaded (s' ! i) = None
                  \<and> title (s' ! i) = title (s ! i) \<and> imdb_id (s' ! i) = imdb_id (s ! i)
                  \<and> tmdb_id (s' ! i) = tmdb_id (s ! i) \<and> quality (s' ! i) = quality (s ! i)
                  \<and> entry_title (s' ! i) = entry_title (s ! i)
                  \<and> entry_url (s' ! i) = entry_url (s ! i)
                  \<and> entry_original_url (s' ! i) = entry_original_url (s ! i)
                  \<and> (\<forall>j<length s. j \<noteq> i \<longrightarrow> s' ! j = s ! j)"
    if "queue_forget ttl imdb tmdb s = (Inr t, s')" for t s'
  proof -
    from that obtain item where one: "one_row rows = Inr item"
      and dl: "downloaded item \<noteq> None" and t: "t = title item"
      and s': "s' = session_update (item\<lparr>downloaded := None\<rparr>) s"
      unfolding forget by (auto split: sum.splits error.splits if_splits)
    from one have r: "rows = [item]" by (simp add: one_row_Inr)
    with sub have "item \<in> set s" by auto
    then obtain i where i: "i < length s" and si: "s ! i = item"
      by (auto simp: in_set_conv_nth)
    from i si have "s' = s[i := (s ! i)\<lparr>downloaded := None\<rparr>]"
      unfolding s' using upd [OF i] by simp
    with i si dl t r show ?thesis by auto
  qed
  from a b show ?thesis unfolding rows_def [symmetric] Let_def by blast
qed

text \<open>
  Forgetting "Alien" by title in a table of two rows: the second row is the one changed.
\<close>

theorem queue_forget_frame_witness:
  "distinct (map movie_id [wanted_matrix, seen_alien])
   \<and> filter (\<lambda>r. title r = Some ''Alien'') [wanted_matrix, seen_alien]
       = [[wanted_matrix, seen_alien] ! 1]
   \<and> downloaded ([wanted_matrix, seen_alien] ! 1) = Some 20
   \<and> queue_forget (Some ''Alien'') None None [wanted_matrix, seen_alien]
       = (Inr (Some ''Alien''), [wanted_matrix, seen_alien\<lparr>downloaded := None\<rparr>])
   \<and> entry_title (seen_alien\<lparr>downloaded := None\<rparr>) = entry_title seen_alien"
proof -
  have d: "distinct (map movie_id [wanted_matrix, seen_alien])"
    by (simp add: example_defs)
  have i: "(1::nat) < length [wanted_matrix, seen_alien]" by simp
  have rows: "(if truthy_str None then filter (\<lambda>r. imdb_id r = None) [wanted_matrix, seen_alien]
               else if truthy_int None
                    then filter (\<lambda>r. tmdb_id r = None) [wanted_matrix, seen_alien]
               else if truthy_str (Some ''Alien'')
                    then filter (\<lambda>r. title r = Some ''Alien'') [wanted_matrix, seen_alien]
               else [wanted_matrix, seen_alien]) = [[wanted_matrix, seen_alien] ! 1]
             \<and> downloaded ([wanted_matrix, seen_alien] ! 1) \<noteq> None"
    by (simp add: python_defs example_defs)
  from queue_forget_frame [OF d, of None None "Some ''Alien''"] i rows
  have "queue_forget (Some ''Alien'') None None [wanted_matrix, seen_alien]
          = (Inr (title ([wanted_matrix, seen_alien] ! 1)),
             [wanted_matrix, seen_alien]
               [1 := ([wanted_matrix, seen_alien] ! 1)\<lparr>downloaded := None\<rparr>])"
    unfolding Let_def by blast
  with d show ?thesis by (simp add: example_defs)
qed

text \<open>
  Claim C6 (the code departs from it). When the selector of \<open>queue_forget\<close> matches more
  than one row, \<open>Query.one()\<close> raises \<open>MultipleResultsFound\<close> and \<open>queue_forget\<close>, which
  catches only \<open>NoResultFound\<close>, lets it through: the caller gets no \<open>QueueError\<close>. On the
  same table and selector \<open>queue_del\<close> catches it and raises the \<open>QueueError\<close> "matches
  multiple results". The table is unchanged in both.
\<close>

theorem queue_forget_two_titles:
  "queue_forget (Some ''The Matrix'') None None matrix_twice
     = (Inl MultipleResultsFound, matrix_twice)
   \<and> queue_del (Some ''The Matrix'') None None matrix_twice
     = (Inl (QueueError MatchesMultiple 0), matrix_twice)"
  by (simp add: queue_forget_def queue_del_def matrix_twice_def python_defs example_defs)

section \<open>queue_del\<close>

text \<open>
  Claim C7. The rows that \<open>queue_del\<close> looks at are chosen by the first of \<open>imdb_id\<close>,
  \<open>tmdb_id\<close>, \<open>title\<close> that is given and not empty (not zero), and by that field alone;
  with none of them given the query has no condition. When no row is chosen the call
  fails with the \<open>QueueError\<close> "not found", when more than one is chosen with the
  \<open>QueueError\<close> "matches multiple results", and the table is unchanged; when exactly one
  row is chosen the call returns its title and the table loses that row and no other.
  The ids of the table's rows are distinct (\<open>id\<close> is the primary key).
\<close>

theorem queue_del_contract:
  assumes "distinct (map movie_id s)"
  shows "let rows = (if truthy_str imdb then filter (\<lambda>r. imdb_id r = imdb) s
                     else if truthy_int tmdb then filter (\<lambda>r. tmdb_id r = tmdb) s
                     else if truthy_str ttl then filter (\<lambda>r. title r = ttl) s
                     else s)
         in (rows = [] \<longrightarrow> queue_del ttl imdb tmdb s = (Inl (QueueError NotFound 0), s))
          \<and> (1 < length rows \<longrightarrow>
               queue_del ttl imdb tmdb s = (Inl (QueueError MatchesMultiple 0), s))
          \<and> (\<forall>item. rows = [item] \<longrightarrow>
               queue_del ttl imdb tmdb s = (Inr (title item), remove1 item s)
               \<and> item \<in> set s \<and> item \<notin> set (remove1 item s)
               \<and> length (remove1 item s) + 1 = length s)"
proof -
  define rows where "rows =
     (if truthy_str imdb then filter (\<lambda>r. imdb_id r = imdb) s
      else if truthy_int tmdb then filter (\<lambda>r. tmdb_id r = tmdb) s
      else if truthy_str ttl then filter (\<lambda>r. title r = ttl) s
      else s)"
  have sub: "set rows \<subseteq> set s" by (auto simp: rows_def)
  have del: "queue_del ttl imdb tmdb s =
      (case one_row rows of
           Inr item \<Rightarrow> (Inr (title item), session_delete item s)
         | Inl NoResultFound \<Rightarrow> (Inl (QueueError NotFound 0), s)
         | Inl MultipleResultsFound \<Rightarrow> (Inl (QueueError MatchesMultiple 0), s)
         | Inl e \<Rightarrow> (Inl e, s))"
    by (simp add: queue_del_def rows_def)
  have a: "rows = [] \<Longrightarrow> queue_del ttl imdb tmdb s = (Inl (QueueError NotFound 0), s)"
    by (simp add: del one_row_def)
  have b: "1 < length rows \<Longrightarrow>
       queue_del ttl imdb tmdb s = (Inl (QueueError MatchesMultiple 0), s)"
    using one_row_many [of rows] by (simp add: del)
  have c: "queue_del ttl imdb tmdb s = (Inr (title item), remove1 item s)
               \<and> item \<in> set s \<and> item \<notin> set (remove1 item s)
               \<and> length (remove1 item s) + 1 = length s" if "rows = [item]" for item
  proof -
    from that sub have mem: "item \<in> set s" by auto
    from assms have ds: "distinct s" by (simp add: distinct_map)
    from that have "one_row rows = Inr item" by (simp add: one_row_Inr)
    then have "queue_del ttl imdb tmdb s = (Inr (title item), session_delete item s)"
      by (simp add: del)
    with assms mem ds show ?thesis
      by (simp add: session_delete_remove1 length_remove1)
        (cases s, auto)
  qed
  from a b c show ?thesis unfolding rows_def [symmetric] Let_def by blast
qed

text \<open>
  The priority order on a table of two rows: the imdb id wins over a tmdb id that belongs
  to the other row; an empty imdb id gives way to the tmdb id; an unknown title is not
  found; and a title that two rows share is ambiguous.
\<close>

theorem queue_del_contract_witness:
  "distinct (map movie_id [seen_alien, wanted_matrix])
   \<and> queue_del (Some ''ignored'') (Some ''tt0078748'') (Some 603) [seen_alien, wanted_matrix]
       = (Inr (Some ''Alien''), [wanted_matrix])
   \<and> queue_del (Some ''ignored'') (Some '''') (Some 603) [seen_alien, wanted_matrix]
       = (Inr (Some ''The Matrix''), [seen_alien])
   \<and> queue_del (Some ''Heat'') None None [seen_alien, wanted_matrix]
       = (Inl (QueueError NotFound 0), [seen_alien, wanted_matrix])
   \<and> distinct (map movie_id matrix_twice)
   \<and> queue_del (Some ''The Matrix'') None None matrix_twice
       = (Inl (QueueError MatchesMultiple 0), matrix_twice)"
proof -
  have d: "distinct (map movie_id [seen_alien, wanted_matrix])"
    by (simp add: example_defs)
  have d2: "distinct (map movie_id matrix_twice)"
    by (simp add: matrix_twice_def example_defs)
  show ?thesis
    using queue_del_contract [OF d, of "Some ''tt0078748''" "Some 603" "Some ''ignored''"]
      queue_del_contract [OF d, of "Some ''''" "Some 603" "Some ''ignored''"]
      queue_del_contract [OF d, of None None "Some ''Heat''"]
      queue_del_contract [OF d2, of None None "Some ''The Matrix''"]
      d d2
    by (simp add: queue_del_def session_delete_def matrix_twice_def python_defs example_defs)
qed

section \<open>queue_edit\<close>

text \<open>
  Claim C8 (the code departs from it). \<open>queue_edit\<close> takes a \<open>tmdb_id\<close> but its query
  compares \<open>imdb_id\<close> only. A call that gives just the tmdb id of a queued movie looks for
  a row whose \<open>imdb_id\<close> is null and fails with "not found", although \<open>queue_del\<close> finds
  the row by the same tmdb id.
\<close>

theorem queue_edit_by_tmdb:
  "tmdb_id wanted_matrix = Some 603
   \<and> queue_edit ''1080p'' None (Some 603) [wanted_matrix]
       = (Inl (QueueError NotFound 0), [wanted_matrix])
   \<and> queue_del None None (Some 603) [wanted_matrix] = (Inr (Some ''The Matrix''), [])"
  by (simp add: queue_edit_def queue_del_def session_delete_def python_defs wanted_matrix_def)

section \<open>MovieQueueListAPI.get\<close>

text \<open>
  Five wanted movies. With a page size of zero the division raises \<open>ZeroDivisionError\<close>
  for every page, so there is neither a page count nor an out-of-range answer; with a
  page size that \<open>float\<close> cannot hold the conversion raises \<open>OverflowError\<close>; and page 0
  with two movies to a page is answered with the last two movies (indices \<open>-2\<close> and \<open>-1\<close>
  count from the end of the list).
\<close>

theorem api_get_page_size_counterexample:
  "queue_get False five_wanted = five_wanted
   \<and> api_get 1 0 False five_wanted = Inl ZeroDivisionError
   \<and> api_get 4 0 False five_wanted = Inl ZeroDivisionError
   \<and> api_get 1 (2 ^ 1024) False five_wanted = Inl OverflowError
   \<and> api_get 0 2 False five_wanted
       = Inr (MovieList [wanted_row 4 ''Dune'' (Some ''tt0087182'') None ''any'',
                         wanted_row 5 ''Heat'' (Some ''tt0113277'') None ''any''] 5 0 3)"
proof -
  have r: "[- 2..- 1] = [- 2, - 1 :: int]" by (simp add: upto.simps)
  show ?thesis
    by (simp add: api_get_def queue_get_def five_wanted_def wanted_row_def
        float_overflows_def total_pages_def py_index_def Let_def r)
qed

text \<open>
  Claim C9, as amended. For a listing of \<open>n > 0\<close> movies and a page size that is not zero
  and that \<open>float\<close> converts, the page count is the ceiling of \<open>n\<close> over the page size (for a
  page size above zero: the least number of pages that hold \<open>n\<close> movies); a page number
  above the page count is answered with the error "page does not exist"; and a page
  from 1 up to the page count is answered with the movies from index \<open>(page - 1) * size\<close>
  up to, not including, \<open>min (page * size) n\<close>, with the count, the page number and the
  page count, and that page is never empty.
\<close>

theorem api_get_pagination:
  assumes "queue_get only_downloaded s \<noteq> []"
    and "max_results \<noteq> 0" and "\<not> float_overflows max_results"
  shows "let movie_queue = queue_get only_downloaded s;
             n = int (length movie_queue);
             pages = total_pages n max_results
         in pages = \<lceil>real_of_int n / real_of_int max_results\<rceil>
          \<and> (0 < max_results \<longrightarrow> (pages - 1) * max_results < n \<and> n \<le> pages * max_results)
          \<and> (pages < page \<longrightarrow>
               api_get page max_results only_downloaded s = Inr (PageDoesNotExist page))
          \<and> (1 \<le> page \<and> page \<le> pages \<longrightarrow>
               api_get page max_results only_downloaded s =
                 Inr (MovieList (drop (nat ((page - 1) * max_results))
                                   (take (nat (min (page * max_results) n)) movie_queue))
                        n page pages)
               \<and> drop (nat ((page - 1) * max_results))
                    (take (nat (min (page * max_results) n)) movie_queue) \<noteq> [])"
proof -
  define q where "q = queue_get only_downloaded s"
  define n where "n = int (length q)"
  define pages where "pages = total_pages n max_results"
  from assms(1) have qne: "q \<noteq> []" by (simp add: q_def)
  then have n0: "n \<noteq> 0" and npos: "0 < n" by (simp_all add: n_def)
  note m0 = assms(2) and nf = assms(3)
  have bounds: "(pages - 1) * max_results < n \<and> n \<le> pages * max_results"
    if "0 < max_results"
    unfolding pages_def using total_pages_bounds [OF that, of n] by simp
  have out: "api_get page max_results only_downloaded s = Inr (PageDoesNotExist page)"
    if "pages < page"
    using that n0 m0 nf qne by (simp add: api_get_def Let_def q_def [symmetric] n_def [symmetric]
        pages_def [symmetric])
  have page: "api_get page max_results only_downloaded s =
                 Inr (MovieList (drop (nat ((page - 1) * max_results))
                                   (take (nat (min (page * max_results) n)) q))
                        n page pages)
               \<and> drop (nat ((page - 1) * max_results))
                    (take (nat (min (page * max_results) n)) q) \<noteq> []"
    if "1 \<le> page \<and> page \<le> pages"
  proof -
    let ?start = "(page - 1) * max_results"
    let ?finish = "if ?start + max_results > n then n else ?start + max_results"
    have mpos: "0 < max_results"
    proof (rule ccontr)
      assume "\<not> 0 < max_results"
      with m0 have "max_results < 0" by simp
      with npos have "pages \<le> 0" unfolding pages_def by (rule total_pages_negative_size)
      with that show False by simp
    qed
    from bounds [OF mpos] have b1: "(pages - 1) * max_results < n" by simp
    from that mpos have s0: "0 \<le> ?start" by simp
    have fin: "?finish = min (page * max_results) n" by (simp add: algebra_simps min_def)
    have fn: "?finish \<le> int (length q)" by (simp add: n_def)
    from that mpos have "?start \<le> (pages - 1) * max_results"
      by (simp add: mult_right_mono)
    with b1 have sn: "?start < n" by simp
    from mpos have "?start < page * max_results" by (simp add: algebra_simps)
    with sn have lt: "?start < min (page * max_results) n" by simp
    have items: "append_items q [?start..?finish - 1] []
          = Inr ([] @ drop (nat ?start) (take (nat ?finish) q))"
      using s0 fn by (rule append_items_slice)
    from that have np: "\<not> pages < page" by simp
    have step: "api_get page max_results only_downloaded s =
            (case append_items q [?start..?finish - 1] [] of
               Inl e \<Rightarrow> Inl e
             | Inr movie_items \<Rightarrow> Inr (MovieList movie_items n page pages))"
      using n0 m0 nf np qne unfolding q_def n_def pages_def
      by (simp add: api_get_def Let_def split del: if_split)
    have "api_get page max_results only_downloaded s =
            Inr (MovieList (drop (nat ?start) (take (nat ?finish) q)) n page pages)"
      unfolding step items by simp
    moreover have len: "length (take (nat (min (page * max_results) n)) q)
                          = nat (min (page * max_results) n)"
      unfolding n_def length_take by linarith
    from lt s0 have "nat ?start < nat (min (page * max_results) n)" by linarith
    then have "drop (nat ?start) (take (nat (min (page * max_results) n)) q) \<noteq> []"
      unfolding drop_eq_Nil len by linarith
    ultimately show ?thesis by (simp only: fin, simp)
  qed
  from bounds out page show ?thesis
    unfolding Let_def q_def [symmetric] n_def [symmetric] pages_def [symmetric]
    by (simp add: total_pages_def pages_def)
qed

text \<open>
  Five wanted movies, two to a page: three pages; page 4 does not exist, page 3 holds the
  fifth movie and page 2 the third and fourth.
\<close>

theorem api_get_pagination_witness:
  "queue_get False five_wanted = five_wanted
   \<and> \<not> float_overflows 2
   \<and> total_pages 5 2 = 3
   \<and> api_get 4 2 False five_wanted = Inr (PageDoesNotExist 4)
   \<and> api_get 3 2 False five_wanted
       = Inr (MovieList [wanted_row 5 ''Heat'' (Some ''tt0113277'') None ''any''] 5 3 3)
   \<and> api_get 2 2 False five_wanted
       = Inr (MovieList [wanted_row 3 ''Contact'' (Some ''tt0118884'') None ''any'',
                         wanted_row 4 ''Dune'' (Some ''tt0087182'') None ''any''] 5 2 3)"
proof -
  have q: "queue_get False five_wanted = five_wanted"
    by (simp add: queue_get_def five_wanted_def wanted_row_def)
  have ne: "queue_get False five_wanted \<noteq> []"
    unfolding q by (simp add: five_wanted_def)
  have m: "(2::int) \<noteq> 0" by simp
  have nf: "\<not> float_overflows 2" by (simp add: float_overflows_def)
  have n: "int (length five_wanted) = 5" by (simp add: five_wanted_def)
  have p: "total_pages 5 2 = 3" by (simp add: total_pages_def)
  show ?thesis
    using api_get_pagination [OF ne m nf, of 4] api_get_pagination [OF ne m nf, of 3]
      api_get_pagination [OF ne m nf, of 2] q p nf
    by (simp add: Let_def n) (simp add: five_wanted_def)
qed

text \<open>
  Claim C10. The handler answers with the body "no movies found in queue", which has no
  list, count or page field, exactly when the listing is empty, whatever the page, the
  page size and the \<open>downloaded\<close> flag are: the page arithmetic, with its error for a page
  out of range, is reached only when there is at least one movie.
\<close>

theorem api_get_empty_listing:
  "(api_get page max_results only_downloaded s = Inr NoMoviesFound)
     = (queue_get only_downloaded s = [])"
  by (auto simp: api_get_def Let_def split: sum.splits)

text \<open>
  A table with one wanted movie: its listing of downloaded movies is empty and answered
  with that body even for page 7 and a page size of zero; its listing of wanted movies is
  not.
\<close>

theorem api_get_empty_listing_witness:
  "queue_get True [wanted_matrix] = []
   \<and> api_get 7 0 True [wanted_matrix] = Inr NoMoviesFound
   \<and> api_get 1 50 False [wanted_matrix] \<noteq> Inr NoMoviesFound"
  using api_get_empty_listing [of 7 0 True "[wanted_matrix]"]
    api_get_empty_listing [of 1 50 False "[wanted_matrix]"]
  by (simp add: queue_get_def wanted_matrix_def)

end
